theory Spec2Isabelle
  imports Complex_Main "HOL-Library.Word"
begin

section \<open>Python effects: exceptions and ambient state\<close>

text \<open>
  The elements of an optical system are Python callables. A call may raise, and it may
  read or change ambient state (a Flax scope, a closure), so a computation is a function
  from the state before it to its outcome and the state after it. An outcome is the
  value returned (\<open>Inr\<close>) or the exception raised (\<open>Inl\<close>).

  \<open>IndexError\<close> is what \<open>xs[0]\<close> raises on an empty sequence, \<open>AttributeError\<close>
  what \<open>getattr\<close> raises on a name the object does not have; \<open>Raised x\<close> is any
  exception raised by code outside this repository.
\<close>

datatype 'x error = IndexError | AttributeError string | Raised 'x

type_synonym ('s, 'x, 'a) py = "'s \<Rightarrow> ('x error + 'a) \<times> 's"

definition py_return :: "'a \<Rightarrow> ('s, 'x, 'a) py" where
  "py_return a = (\<lambda>s. (Inr a, s))"

definition py_raise :: "'x error \<Rightarrow> ('s, 'x, 'a) py" where
  "py_raise e = (\<lambda>s. (Inl e, s))"

text \<open>Sequencing: an exception in the first computation skips the rest.\<close>

definition py_bind :: "('s, 'x, 'a) py \<Rightarrow> ('a \<Rightarrow> ('s, 'x, 'b) py) \<Rightarrow> ('s, 'x, 'b) py" where
  "py_bind m k = (\<lambda>s. case m s of (Inl e, s') \<Rightarrow> (Inl e, s') | (Inr a, s') \<Rightarrow> k a s')"

section \<open>Python values held in element attributes\<close>

text \<open>
  Python checks no annotation, so every attribute of an element holds any value. A value
  is concrete (\<open>None\<close>, a bool, an int, a float, a tuple, an array with its shape, a pupil
  \<open>Callable[[Field], Field]\<close>) or a generator \<open>Callable[[PRNGKey], Array]\<close>. \<open>'f\<close> is the
  type of fields, which this repository's sources only pass on. A float is the real
  number it denotes: the functions below store and pass floats and never compute with
  them. A \<open>PRNGKey\<close> is a pair of 32-bit words.
\<close>

type_synonym PRNGKey = "32 word \<times> 32 word"

datatype 'f val =
    VNone
  | VBool bool
  | VInt int
  | VFloat real
  | VTuple "'f val list"
  | VArray "nat list" "real list"
  | VPupil "'f \<Rightarrow> 'f"

datatype 'f attr = Concrete "'f val" | Generator "PRNGKey \<Rightarrow> 'f val"

text \<open>
  The float literals of the sources, each the IEEE double nearest to the decimal text, and
  \<open>np.finfo(np.float32).eps\<close>, the distance from 1.0 to the next float32.
\<close>

definition float_1e_3 :: real where
  "float_1e_3 = 1152921504606847 / 2 ^ 60"

definition float_1e_6 :: real where
  "float_1e_6 = 4722366482869645 / 2 ^ 72"

definition float_632_8e_9 :: real where
  "float_632_8e_9 = 5976627020719823 / 2 ^ 73"

definition float_50e_6 :: real where
  "float_50e_6 = 7378697629483821 / 2 ^ 67"

definition float_5e_3 :: real where
  "float_5e_3 = 5764607523034235 / 2 ^ 60"

definition float32_eps :: real where
  "float32_eps = 1 / 2 ^ 23"

text \<open>A parameter with a default value: \<open>None\<close> when the caller leaves it out.\<close>

definition default_arg :: "'a \<Rightarrow> 'a option \<Rightarrow> 'a" where
  "default_arg d given = (case given of None \<Rightarrow> d | Some v \<Rightarrow> v)"

section \<open>The registration collaborator\<close>

text \<open>
  Modelled from the spec: \<open>register\<close> of \<open>chromatix.elements.utils\<close> is imported by
  \<open>elements/sources.py\<close> and is not among the sources. The specification gives it as
  \<open>resolve(attr, context) -> value\<close>: an attribute supplied as a concrete value or as a
  generator callable is resolved, given a seed/context, to a concrete value. The
  attribute is read by name from the element (\<open>getattr\<close>, one table per class below); the
  context is the state and stays as it is.
\<close>

definition resolve :: "PRNGKey \<Rightarrow> 'f attr \<Rightarrow> 'f val" where
  "resolve ctx init = (case init of Concrete v \<Rightarrow> v | Generator g \<Rightarrow> g ctx)"

definition spec_register ::
  "('m \<Rightarrow> string \<rightharpoonup> 'f attr) \<Rightarrow> 'm \<Rightarrow> string \<Rightarrow> (PRNGKey, 'x, 'f attr) py" where
  "spec_register getattr self name =
     (\<lambda>ctx. case getattr self name of
        None \<Rightarrow> (Inl (AttributeError name), ctx)
      | Some init \<Rightarrow> (Inr (Concrete (resolve ctx init)), ctx))"

section \<open>elements/sources.py\<close>

text \<open>
  Each class is a record of its attributes in the order of the source; the fields carry
  a class prefix, since the attribute names \<open>n\<close>, \<open>f\<close>, \<open>z\<close> and \<open>power\<close> are needed as
  variables. \<open>C_init\<close> is the dataclass constructor on the attributes without a default,
  filling in the defaults of the others; a keyword given for one of those is a record
  update. \<open>C_getattr\<close> is attribute lookup by name. \<open>C_call\<close> is \<open>__call__\<close>; it takes
  \<open>register\<close> and the function of \<open>chromatix.functional.sources\<close> it calls as
  parameters, since neither is among the sources.
\<close>

subsection \<open>PointSource\<close>

record 'f PointSource =
  ps_shape :: "'f attr"
  ps_dx :: "'f attr"
  ps_spectrum :: "'f attr"
  ps_spectral_density :: "'f attr"
  ps_z :: "'f attr"
  ps_n :: "'f attr"
  ps_power :: "'f attr"
  ps_amplitude :: "'f attr"
  ps_pupil :: "'f attr"
  ps_scalar :: "'f attr"
  ps_epsilon :: "'f attr"

definition PointSource_init ::
  "'f attr \<Rightarrow> 'f attr \<Rightarrow> 'f attr \<Rightarrow> 'f attr \<Rightarrow> 'f attr \<Rightarrow> 'f attr \<Rightarrow> 'f PointSource" where
  "PointSource_init shape dx spectrum spectral_density z n =
     \<lparr>ps_shape = shape, ps_dx = dx, ps_spectrum = spectrum,
      ps_spectral_density = spectral_density, ps_z = z, ps_n = n,
      ps_power = Concrete (VFloat 1), ps_amplitude = Concrete (VFloat 1),
      ps_pupil = Concrete VNone, ps_scalar = Concrete (VBool True),
      ps_epsilon = Concrete (VFloat float32_eps)\<rparr>"

definition PointSource_getattr :: "'f PointSource \<Rightarrow> string \<rightharpoonup> 'f attr" where
  "PointSource_getattr self =
     [''shape'' \<mapsto> ps_shape self, ''dx'' \<mapsto> ps_dx self, ''spectrum'' \<mapsto> ps_spectrum self,
      ''spectral_density'' \<mapsto> ps_spectral_density self, ''z'' \<mapsto> ps_z self,
      ''n'' \<mapsto> ps_n self, ''power'' \<mapsto> ps_power self, ''amplitude'' \<mapsto> ps_amplitude self,
      ''pupil'' \<mapsto> ps_pupil self, ''scalar'' \<mapsto> ps_scalar self,
      ''epsilon'' \<mapsto> ps_epsilon self]"

definition PointSource_call ::
  "('f PointSource \<Rightarrow> string \<Rightarrow> ('s, 'x, 'f attr) py) \<Rightarrow>
   ('f attr \<Rightarrow> 'f attr \<Rightarrow> 'f attr \<Rightarrow> 'f attr \<Rightarrow> 'f attr \<Rightarrow> 'f attr \<Rightarrow> 'f attr \<Rightarrow> 'f attr \<Rightarrow>
    'f attr \<Rightarrow> 'f attr \<Rightarrow> 'f attr \<Rightarrow> ('s, 'x, 'r) py) \<Rightarrow>
   'f PointSource \<Rightarrow> ('s, 'x, 'r) py" where
  "PointSource_call register point_source self =
     py_bind (register self ''power'') (\<lambda>power'.
     py_bind (register self ''z'') (\<lambda>z.
     py_bind (register self ''n'') (\<lambda>n.
     py_bind (register self ''amplitude'') (\<lambda>amplitude.
     point_source (ps_shape self) (ps_dx self) (ps_spectrum self) (ps_spectral_density self)
       z n power' amplitude (ps_pupil self) (ps_scalar self) (ps_epsilon self)))))"

subsection \<open>ObjectivePointSource\<close>

record 'f ObjectivePointSource =
  ops_shape :: "'f attr"
  ops_dx :: "'f attr"
  ops_spectrum :: "'f attr"
  ops_spectral_density :: "'f attr"
  ops_f :: "'f attr"
  ops_n :: "'f attr"
  ops_NA :: "'f attr"
  ops_power :: "'f attr"
  ops_amplitude :: "'f attr"
  ops_offset :: "'f attr"
  ops_scalar :: "'f attr"

definition ObjectivePointSource_init ::
  "'f attr \<Rightarrow> 'f attr \<Rightarrow> 'f attr \<Rightarrow> 'f attr \<Rightarrow> 'f attr \<Rightarrow> 'f attr \<Rightarrow> 'f attr \<Rightarrow>
   'f ObjectivePointSource" where
  "ObjectivePointSource_init shape dx spectrum spectral_density f n NA =
     \<lparr>ops_shape = shape, ops_dx = dx, ops_spectrum = spectrum,
      ops_spectral_density = spectral_density, ops_f = f, ops_n = n, ops_NA = NA,
      ops_power = Concrete (VFloat 1), ops_amplitude = Concrete (VFloat 1),
      ops_offset = Concrete (VTuple [VFloat 0, VFloat 0]),
      ops_scalar = Concrete (VBool True)\<rparr>"

definition ObjectivePointSource_getattr ::
  "'f ObjectivePointSource \<Rightarrow> string \<rightharpoonup> 'f attr" where
  "ObjectivePointSource_getattr self =
     [''shape'' \<mapsto> ops_shape self, ''dx'' \<mapsto> ops_dx self, ''spectrum'' \<mapsto> ops_spectrum self,
      ''spectral_density'' \<mapsto> ops_spectral_density self, ''f'' \<mapsto> ops_f self,
      ''n'' \<mapsto> ops_n self, ''NA'' \<mapsto> ops_NA self, ''power'' \<mapsto> ops_power self,
      ''amplitude'' \<mapsto> ops_amplitude self, ''offset'' \<mapsto> ops_offset self,
      ''scalar'' \<mapsto> ops_scalar self]"

text \<open>\<open>ObjectivePointSource.__call__(self, z)\<close>: the one source called with an argument.\<close>

definition ObjectivePointSource_call ::
  "('f ObjectivePointSource \<Rightarrow> string \<Rightarrow> ('s, 'x, 'f attr) py) \<Rightarrow>
   ('f attr \<Rightarrow> 'f attr \<Rightarrow> 'f attr \<Rightarrow> 'f attr \<Rightarrow> 'f attr \<Rightarrow> 'f attr \<Rightarrow> 'f attr \<Rightarrow> 'f attr \<Rightarrow>
    'f attr \<Rightarrow> 'f attr \<Rightarrow> 'f attr \<Rightarrow> 'f attr \<Rightarrow> ('s, 'x, 'r) py) \<Rightarrow>
   'f ObjectivePointSource \<Rightarrow> 'f attr \<Rightarrow> ('s, 'x, 'r) py" where
  "ObjectivePointSource_call register objective_point_source self z =
     py_bind (register self ''f'') (\<lambda>f.
     py_bind (register self ''n'') (\<lambda>n.
     py_bind (register self ''NA'') (\<lambda>NA.
     py_bind (register self ''power'') (\<lambda>power'.
     py_bind (register self ''amplitude'') (\<lambda>amplitude.
     py_bind (register self ''offset'') (\<lambda>offset.
     objective_point_source (ops_shape self) (ops_dx self) (ops_spectrum self)
       (ops_spectral_density self) z f n NA power' amplitude offset (ops_scalar self)))))))"

subsection \<open>PlaneWave\<close>

record 'f PlaneWave =
  pw_shape :: "'f attr"
  pw_dx :: "'f attr"
  pw_spectrum :: "'f attr"
  pw_spectral_density :: "'f attr"
  pw_power :: "'f attr"
  pw_amplitude :: "'f attr"
  pw_kykx :: "'f attr"
  pw_pupil :: "'f attr"
  pw_scalar :: "'f attr"

definition PlaneWave_init ::
  "'f attr \<Rightarrow> 'f attr \<Rightarrow> 'f attr \<Rightarrow> 'f attr \<Rightarrow> 'f PlaneWave" where
  "PlaneWave_init shape dx spectrum spectral_density =
     \<lparr>pw_shape = shape, pw_dx = dx, pw_spectrum = spectrum,
      pw_spectral_density = spectral_density,
      pw_power = Concrete (VFloat 1), pw_amplitude = Concrete (VFloat 1),
      pw_kykx = Concrete (VTuple [VFloat 0, VFloat 0]), pw_pupil = Concrete VNone,
      pw_scalar = Concrete (VBool True)\<rparr>"

definition PlaneWave_getattr :: "'f PlaneWave \<Rightarrow> string \<rightharpoonup> 'f attr" where
  "PlaneWave_getattr self =
     [''shape'' \<mapsto> pw_shape self, ''dx'' \<mapsto> pw_dx self, ''spectrum'' \<mapsto> pw_spectrum self,
      ''spectral_density'' \<mapsto> pw_spectral_density self, ''power'' \<mapsto> pw_power self,
      ''amplitude'' \<mapsto> pw_amplitude self, ''kykx'' \<mapsto> pw_kykx self,
      ''pupil'' \<mapsto> pw_pupil self, ''scalar'' \<mapsto> pw_scalar self]"

definition PlaneWave_call ::
  "('f PlaneWave \<Rightarrow> string \<Rightarrow> ('s, 'x, 'f attr) py) \<Rightarrow>
   ('f attr \<Rightarrow> 'f attr \<Rightarrow> 'f attr \<Rightarrow> 'f attr \<Rightarrow> 'f attr \<Rightarrow> 'f attr \<Rightarrow> 'f attr \<Rightarrow> 'f attr \<Rightarrow>
    'f attr \<Rightarrow> ('s, 'x, 'r) py) \<Rightarrow>
   'f PlaneWave \<Rightarrow> ('s, 'x, 'r) py" where
  "PlaneWave_call register plane_wave self =
     py_bind (register self ''kykx'') (\<lambda>kykx.
     py_bind (register self ''power'') (\<lambda>power'.
     py_bind (register self ''amplitude'') (\<lambda>amplitude.
     plane_wave (pw_shape self) (pw_dx self) (pw_spectrum self) (pw_spectral_density self)
       power' amplitude kykx (pw_pupil self) (pw_scalar self))))"

subsection \<open>GenericField\<close>

record 'f GenericField =
  gf_dx :: "'f attr"
  gf_spectrum :: "'f attr"
  gf_spectral_density :: "'f attr"
  gf_amplitude :: "'f attr"
  gf_phase :: "'f attr"
  gf_power :: "'f attr"
  gf_pupil :: "'f attr"
  gf_scalar :: "'f attr"

definition GenericField_init ::
  "'f attr \<Rightarrow> 'f attr \<Rightarrow> 'f attr \<Rightarrow> 'f attr \<Rightarrow> 'f attr \<Rightarrow> 'f GenericField" where
  "GenericField_init dx spectrum spectral_density amplitude phase =
     \<lparr>gf_dx = dx, gf_spectrum = spectrum, gf_spectral_density = spectral_density,
      gf_amplitude = amplitude, gf_phase = phase,
      gf_power = Concrete (VFloat 1), gf_pupil = Concrete VNone,
      gf_scalar = Concrete (VBool True)\<rparr>"

definition GenericField_getattr :: "'f GenericField \<Rightarrow> string \<rightharpoonup> 'f attr" where
  "GenericField_getattr self =
     [''dx'' \<mapsto> gf_dx self, ''spectrum'' \<mapsto> gf_spectrum self,
      ''spectral_density'' \<mapsto> gf_spectral_density self, ''amplitude'' \<mapsto> gf_amplitude self,
      ''phase'' \<mapsto> gf_phase self, ''power'' \<mapsto> gf_power self, ''pupil'' \<mapsto> gf_pupil self,
      ''scalar'' \<mapsto> gf_scalar self]"

definition GenericField_call ::
  "('f GenericField \<Rightarrow> string \<Rightarrow> ('s, 'x, 'f attr) py) \<Rightarrow>
   ('f attr \<Rightarrow> 'f attr \<Rightarrow> 'f attr \<Rightarrow> 'f attr \<Rightarrow> 'f attr \<Rightarrow> 'f attr \<Rightarrow> 'f attr \<Rightarrow> 'f attr \<Rightarrow>
    ('s, 'x, 'r) py) \<Rightarrow>
   'f GenericField \<Rightarrow> ('s, 'x, 'r) py" where
  "GenericField_call register generic_field self =
     py_bind (register self ''amplitude'') (\<lambda>amplitude.
     py_bind (register self ''phase'') (\<lambda>phase.
     py_bind (register self ''power'') (\<lambda>power'.
     generic_field (gf_dx self) (gf_spectrum self) (gf_spectral_density self)
       amplitude phase power' (gf_pupil self) (gf_scalar self))))"

subsection \<open>GaussianPlaneWave\<close>

record 'f GaussianPlaneWave =
  gpw_shape :: "'f attr"
  gpw_dx :: "'f attr"
  gpw_spectrum :: "'f attr"
  gpw_spectral_density :: "'f attr"
  gpw_waist :: "'f attr"
  gpw_power :: "'f attr"
  gpw_amplitude :: "'f attr"
  gpw_kykx :: "'f attr"
  gpw_pupil :: "'f attr"
  gpw_scalar :: "'f attr"

definition GaussianPlaneWave_init ::
  "'f attr \<Rightarrow> 'f attr \<Rightarrow> 'f attr \<Rightarrow> 'f attr \<Rightarrow> 'f attr \<Rightarrow> 'f GaussianPlaneWave" where
  "GaussianPlaneWave_init shape dx spectrum spectral_density waist =
     \<lparr>gpw_shape = shape, gpw_dx = dx, gpw_spectrum = spectrum,
      gpw_spectral_density = spectral_density, gpw_waist = waist,
      gpw_power = Concrete (VFloat 1), gpw_amplitude = Concrete (VFloat 1),
      gpw_kykx = Concrete (VTuple [VFloat 0, VFloat 0]), gpw_pupil = Concrete VNone,
      gpw_scalar = Concrete (VBool True)\<rparr>"

definition GaussianPlaneWave_getattr :: "'f GaussianPlaneWave \<Rightarrow> string \<rightharpoonup> 'f attr" where
  "GaussianPlaneWave_getattr self =
     [''shape'' \<mapsto> gpw_shape self, ''dx'' \<mapsto> gpw_dx self, ''spectrum'' \<mapsto> gpw_spectrum self,
      ''spectral_density'' \<mapsto> gpw_spectral_density self, ''waist'' \<mapsto> gpw_waist self,
      ''power'' \<mapsto> gpw_power self, ''amplitude'' \<mapsto> gpw_amplitude self,
      ''kykx'' \<mapsto> gpw_kykx self, ''pupil'' \<mapsto> gpw_pupil self, ''scalar'' \<mapsto> gpw_scalar self]"

definition GaussianPlaneWave_call ::
  "('f GaussianPlaneWave \<Rightarrow> string \<Rightarrow> ('s, 'x, 'f attr) py) \<Rightarrow>
   ('f attr \<Rightarrow> 'f attr \<Rightarrow> 'f attr \<Rightarrow> 'f attr \<Rightarrow> 'f attr \<Rightarrow> 'f attr \<Rightarrow> 'f attr \<Rightarrow> 'f attr \<Rightarrow>
    'f attr \<Rightarrow> 'f attr \<Rightarrow> ('s, 'x, 'r) py) \<Rightarrow>
   'f GaussianPlaneWave \<Rightarrow> ('s, 'x, 'r) py" where
  "GaussianPlaneWave_call register gaussian_plane_wave self =
     py_bind (register self ''kykx'') (\<lambda>kykx.
     py_bind (register self ''power'') (\<lambda>power'.
     py_bind (register self ''amplitude'') (\<lambda>amplitude.
     gaussian_plane_wave (gpw_shape self) (gpw_dx self) (gpw_spectrum self)
       (gpw_spectral_density self) (gpw_waist self) power' amplitude kykx
       (gpw_pupil self) (gpw_scalar self))))"

section \<open>Propagate and ThinLens\<close>

text \<open>
  Modelled from the spec: the classes \<open>Propagate\<close> and \<open>ThinLens\<close> of
  \<open>chromatix.elements\<close> are constructed by \<open>system_prop_lens_prop\<close> and are not among
  the sources. The specification gives \<open>Propagate\<close> a distance \<open>z\<close> and a medium index
  \<open>n\<close>, and \<open>ThinLens\<close> a focal length \<open>f\<close>, a medium index \<open>n\<close> and a numerical
  aperture \<open>NA\<close> that may be omitted; these are the keywords the source passes.
\<close>

record 'f Propagate =
  prop_z :: "'f attr"
  prop_n :: "'f attr"

record 'f ThinLens =
  lens_f :: "'f attr"
  lens_n :: "'f attr"
  lens_NA :: "'f attr"

text \<open>The elements \<open>system_prop_lens_prop\<close> puts into a system.\<close>

datatype 'f element =
    GaussianPlaneWave_element "'f GaussianPlaneWave"
  | Propagate_element "'f Propagate"
  | ThinLens_element "'f ThinLens"

section \<open>systems/optical\_system.py\<close>

text \<open>
  \<^verbatim>\<open>class OpticalSystem(nn.Module): elements: Sequence[Callable]\<close>

  The class has one attribute. \<open>'e\<close> is the type of the elements; calling one,
  \<open>element(*args, **kwargs)\<close>, is the parameter \<open>invoke\<close> of the functions below, which
  takes the element, the positional arguments and the keyword arguments.
\<close>

record 'e OpticalSystem =
  elements :: "'e list"

type_synonym ('e, 'v, 's, 'x) invoke =
  "'e \<Rightarrow> 'v list \<Rightarrow> (string \<rightharpoonup> 'v) \<Rightarrow> ('s, 'x, 'v) py"

text \<open>
  The class declares no \<open>__post_init__\<close> and no \<open>setup\<close>: the constructor generated for
  the dataclass stores the sequence it is given and raises nothing. Its result is
  written as an outcome so that this can be stated.
\<close>

definition OpticalSystem_init :: "'e list \<Rightarrow> 'x error + 'e OpticalSystem" where
  "OpticalSystem_init es = Inr \<lparr>elements = es\<rparr>"

text \<open>
  \<^verbatim>\<open>for element in self.elements[1:]: field = element(field)\<close> followed by
  \<^verbatim>\<open>return field\<close>, as a recursion over the remaining elements.
\<close>

fun call_loop :: "('e, 'v, 's, 'x) invoke \<Rightarrow> 'e list \<Rightarrow> 'v \<Rightarrow> ('s, 'x, 'v) py" where
  "call_loop invoke [] field = py_return field"
| "call_loop invoke (element # rest) field =
     py_bind (invoke element [field] Map.empty) (call_loop invoke rest)"

text \<open>
  \<open>OpticalSystem.__call__(self, *args, **kwargs)\<close>. \<open>self.elements[0]\<close> raises
  IndexError on an empty sequence; \<open>self.elements[1:]\<close> is \<open>drop 1\<close>.
\<close>

definition OpticalSystem_call ::
  "('e, 'v, 's, 'x) invoke \<Rightarrow> 'e OpticalSystem \<Rightarrow> 'v list \<Rightarrow> (string \<rightharpoonup> 'v) \<Rightarrow> ('s, 'x, 'v) py" where
  "OpticalSystem_call invoke self args kwargs =
     (if length (elements self) = 0 then py_raise IndexError
      else py_bind (invoke (elements self ! 0) args kwargs)
             (\<lambda>field. call_loop invoke (drop 1 (elements self)) field))"

text \<open>
  \<open>system_prop_lens_prop\<close>: \<open>shape\<close>, \<open>dx\<close> and \<open>spectrum\<close> are required, the other
  parameters have defaults (\<open>spectral_density = 1.0\<close>, \<open>waist = z1 = z2 = f = 1e-3\<close>,
  \<open>n = power = 1.0\<close>, \<open>NA = None\<close>).
\<close>

definition system_prop_lens_prop ::
  "'f attr \<Rightarrow> 'f attr \<Rightarrow> 'f attr \<Rightarrow> 'f attr option \<Rightarrow> 'f attr option \<Rightarrow> 'f attr option \<Rightarrow>
   'f attr option \<Rightarrow> 'f attr option \<Rightarrow> 'f attr option \<Rightarrow> 'f attr option \<Rightarrow> 'f attr option \<Rightarrow>
   'x error + 'f element OpticalSystem" where
  "system_prop_lens_prop shape dx spectrum spectral_density waist z1 z2 f n power' NA =
     (let spectral_density = default_arg (Concrete (VFloat 1)) spectral_density;
          waist = default_arg (Concrete (VFloat float_1e_3)) waist;
          z1 = default_arg (Concrete (VFloat float_1e_3)) z1;
          z2 = default_arg (Concrete (VFloat float_1e_3)) z2;
          f = default_arg (Concrete (VFloat float_1e_3)) f;
          n = default_arg (Concrete (VFloat 1)) n;
          power' = default_arg (Concrete (VFloat 1)) power';
          NA = default_arg (Concrete VNone) NA
      in OpticalSystem_init
           [GaussianPlaneWave_element
              ((GaussianPlaneWave_init shape dx spectrum spectral_density waist)
                 \<lparr>gpw_power := power'\<rparr>),
            Propagate_element \<lparr>prop_z = z1, prop_n = n\<rparr>,
            ThinLens_element \<lparr>lens_f = f, lens_n = n, lens_NA = NA\<rparr>,
            Propagate_element \<lparr>prop_z = z2, prop_n = n\<rparr>])"

section \<open>example\_system\_prop\_lens\_prop.py\<close>

text \<open>The system the example builds: every parameter is given by keyword.\<close>

definition optical_system :: "'x error + 'f element OpticalSystem" where
  "optical_system =
     system_prop_lens_prop
       (Concrete (VTuple [VInt 256, VInt 256]))
       (Concrete (VFloat float_1e_6))
       (Concrete (VFloat float_632_8e_9))
       (Some (Concrete (VFloat 1)))
       (Some (Concrete (VFloat float_50e_6)))
       (Some (Concrete (VFloat float_1e_3)))
       (Some (Concrete (VFloat float_1e_3)))
       (Some (Concrete (VFloat float_5e_3)))
       (Some (Concrete (VFloat 1)))
       (Some (Concrete (VFloat 1)))
       (Some (Concrete (VFloat (1 / 2))))"

section \<open>Notions used to state the properties\<close>

text \<open>
  The contract in the words of the specification: the outcome of \<open>e0(*args)\<close> is handed
  from stage to stage, each stage \<open>e\<close> computing \<open>field = e(field)\<close>.
\<close>

definition then_stage ::
  "('e, 'v, 's, 'x) invoke \<Rightarrow> ('x error + 'v) \<times> 's \<Rightarrow> 'e \<Rightarrow> ('x error + 'v) \<times> 's" where
  "then_stage invoke r e =
     (case r of (Inl err, s) \<Rightarrow> (Inl err, s) | (Inr field, s) \<Rightarrow> invoke e [field] Map.empty s)"

text \<open>
  An element preserves the state when calling it leaves the state as it was. It may read
  the state: resolved parameters and a seed are part of it.
\<close>

definition state_preserving :: "('e, 'v, 's, 'x) invoke \<Rightarrow> 'e \<Rightarrow> bool" where
  "state_preserving invoke e = (\<forall>args kwargs s. snd (invoke e args kwargs s) = s)"

text \<open>
  The hand-over of outcomes alone, for stages given as functions \<open>f\<close> of their arguments:
  an exception is passed on, a value becomes the only argument of the next stage.
\<close>

definition pure_stage ::
  "('e \<Rightarrow> 'v list \<Rightarrow> (string \<rightharpoonup> 'v) \<Rightarrow> 'x error + 'v) \<Rightarrow> 'x error + 'v \<Rightarrow> 'e \<Rightarrow> 'x error + 'v" where
  "pure_stage f r e = (case r of Inl err \<Rightarrow> Inl err | Inr field \<Rightarrow> f e [field] Map.empty)"

text \<open>
  What an element receives is observed by recording every invocation: \<open>observed invoke\<close>
  behaves as \<open>invoke\<close> and appends the element called, its arguments and its outcome to a
  trace carried beside the state.
\<close>

record ('e, 'v, 'x) invocation =
  callee :: 'e
  positional_args :: "'v list"
  keyword_args :: "string \<rightharpoonup> 'v"
  outcome :: "'x error + 'v"

definition observed ::
  "('e, 'v, 's, 'x) invoke \<Rightarrow> ('e, 'v, 's \<times> ('e, 'v, 'x) invocation list, 'x) invoke" where
  "observed invoke e args kwargs =
     (\<lambda>(s, trace). case invoke e args kwargs s of
        (r, s') \<Rightarrow>
          (r, (s', trace @ [\<lparr>callee = e, positional_args = args, keyword_args = kwargs,
                             outcome = r\<rparr>])))"

text \<open>
  \<open>handed_on v es cs\<close>: the invocations \<open>cs\<close> are those of the elements \<open>es\<close>, one each
  and in order, starting from the value \<open>v\<close>. Each has exactly one positional argument,
  the value returned by the one before it, and no keyword argument. Every element is
  invoked unless an invocation before it raised, and nothing is invoked after that.
\<close>

fun handed_on :: "'v \<Rightarrow> 'e list \<Rightarrow> ('e, 'v, 'x) invocation list \<Rightarrow> bool" where
  "handed_on v [] cs = (cs = [])"
| "handed_on v (e # es) [] = False"
| "handed_on v (e # es) (c # cs) =
     (callee c = e \<and> positional_args c = [v] \<and> keyword_args c = Map.empty \<and>
      (case outcome c of Inr v' \<Rightarrow> handed_on v' es cs | Inl err \<Rightarrow> cs = []))"

text \<open>
  \<open>received10\<close> stands for a ten-argument function of \<open>chromatix.functional.sources\<close>
  and returns the arguments it was called with.
\<close>

definition received10 ::
  "'a \<Rightarrow> 'a \<Rightarrow> 'a \<Rightarrow> 'a \<Rightarrow> 'a \<Rightarrow> 'a \<Rightarrow> 'a \<Rightarrow> 'a \<Rightarrow> 'a \<Rightarrow> 'a \<Rightarrow> ('s, 'x, 'a list) py" where
  "received10 a1 a2 a3 a4 a5 a6 a7 a8 a9 a10 = py_return [a1, a2, a3, a4, a5, a6, a7, a8, a9, a10]"

text \<open>\<open>received11\<close> does the same for the eleven arguments of \<open>point_source\<close>.\<close>

definition received11 ::
  "'a \<Rightarrow> 'a \<Rightarrow> 'a \<Rightarrow> 'a \<Rightarrow> 'a \<Rightarrow> 'a \<Rightarrow> 'a \<Rightarrow> 'a \<Rightarrow> 'a \<Rightarrow> 'a \<Rightarrow> 'a \<Rightarrow> ('s, 'x, 'a list) py" where
  "received11 a1 a2 a3 a4 a5 a6 a7 a8 a9 a10 a11 =
     py_return [a1, a2, a3, a4, a5, a6, a7, a8, a9, a10, a11]"

text \<open>A registration that refuses one attribute name and otherwise does as \<open>register\<close>.\<close>

definition refusing ::
  "string \<Rightarrow> ('m \<Rightarrow> string \<Rightarrow> ('s, 'x, 'a) py) \<Rightarrow> 'm \<Rightarrow> string \<Rightarrow> ('s, 'x, 'a) py" where
  "refusing refused register self name =
     (if name = refused then py_raise (AttributeError name) else register self name)"

section \<open>Concrete inputs\<close>

text \<open>
  A small universe for evaluating the composer: a value is a wave (a field) or a scalar
  reduced from one. \<open>Source\<close> accepts any arguments and returns a wave, \<open>Shift k\<close> and
  \<open>Intensity\<close> accept exactly one wave and raise a TypeError on anything else. The
  state is a natural number that these do not touch; \<open>Seeded\<close> returns the wave the
  state gives and leaves the state, \<open>Counter\<close> does the same and counts the state up,
  as a callable with a counter of its own does.
\<close>

datatype sample_value = Wave nat | Scalar nat

fun is_wave :: "sample_value \<Rightarrow> bool" where
  "is_wave (Wave n) = True"
| "is_wave (Scalar n) = False"

datatype sample_element = Source | Shift nat | Intensity | Seeded | Counter

definition the_wave :: "sample_value list \<Rightarrow> nat option" where
  "the_wave args = (case args of [Wave n] \<Rightarrow> Some n | _ \<Rightarrow> None)"

fun sample_invoke :: "(sample_element, sample_value, nat, string) invoke" where
  "sample_invoke Source args kwargs = py_return (Wave (length args))"
| "sample_invoke (Shift k) args kwargs =
     (case the_wave args of
        None \<Rightarrow> py_raise (Raised ''TypeError'')
      | Some n \<Rightarrow> py_return (Wave (n + k)))"
| "sample_invoke Intensity args kwargs =
     (case the_wave args of
        None \<Rightarrow> py_raise (Raised ''TypeError'')
      | Some n \<Rightarrow> py_return (Scalar n))"
| "sample_invoke Seeded args kwargs = (\<lambda>s. (Inr (Wave s), s))"
| "sample_invoke Counter args kwargs = (\<lambda>s. (Inr (Wave s), Suc s))"

text \<open>
  A generator that reads the key, a Gaussian source whose \<open>power\<close> and \<open>waist\<close> are both
  supplied as that generator, and a point source with default \<open>epsilon\<close>.
\<close>

definition sample_generator :: "PRNGKey \<Rightarrow> unit val" where
  "sample_generator key = VInt (uint (snd key))"

definition sample_gaussian :: "unit GaussianPlaneWave" where
  "sample_gaussian =
     (GaussianPlaneWave_init (Concrete (VTuple [VInt 4, VInt 4])) (Concrete (VFloat 1))
        (Concrete (VFloat 2)) (Concrete (VFloat 1)) (Generator sample_generator))
       \<lparr>gpw_power := Generator sample_generator\<rparr>"

definition sample_point :: "unit PointSource" where
  "sample_point =
     PointSource_init (Concrete (VTuple [VInt 4, VInt 4])) (Concrete (VFloat 1))
       (Concrete (VFloat 2)) (Concrete (VFloat 1)) (Generator sample_generator)
       (Concrete (VFloat 1))"

section \<open>The composer\<close>

lemma call_loop_foldl:
  "py_bind m (call_loop invoke es) s = foldl (then_stage invoke) (m s) es"
proof (induction es arbitrary: m)
  case Nil
  show ?case
    by (cases "m s") (auto simp: py_bind_def py_return_def split: sum.splits)
next
  case (Cons e es)
  have "py_bind m (call_loop invoke (e # es)) s
        = py_bind (py_bind m (\<lambda>field. invoke e [field] Map.empty)) (call_loop invoke es) s"
    by (cases "m s") (auto simp: py_bind_def split: sum.splits prod.splits)
  also have "\<dots> = foldl (then_stage invoke) (py_bind m (\<lambda>field. invoke e [field] Map.empty) s) es"
    by (rule Cons.IH)
  also have "py_bind m (\<lambda>field. invoke e [field] Map.empty) s = then_stage invoke (m s) e"
    by (cases "m s") (auto simp: py_bind_def then_stage_def split: sum.splits)
  finally show ?case by simp
qed

lemma OpticalSystem_call_Cons:
  "OpticalSystem_call invoke \<lparr>elements = e0 # es\<rparr> args kwargs s
     = foldl (then_stage invoke) (invoke e0 args kwargs s) es"
  by (simp add: OpticalSystem_call_def call_loop_foldl)

lemma foldl_then_stage_Inl:
  "foldl (then_stage invoke) (Inl err, s) es = (Inl err, s)"
  by (induction es) (simp_all add: then_stage_def)

lemma foldl_then_stage_Inr:
  "foldl (then_stage invoke) (Inr v, s) es = call_loop invoke es v s"
  using call_loop_foldl [of "py_return v" invoke es s]
  by (simp add: py_return_def py_bind_def)

text \<open>
  C1. For every non-empty element sequence \<open>e0, e1, ..., en\<close> and all arguments, the call
  computes \<open>e0(*args, **kwargs)\<close> and then \<open>field = e(field)\<close> for each further element
  in order, and returns the last outcome; a system of the single element \<open>e0\<close> returns what
  \<open>e0(*args, **kwargs)\<close> returns.
\<close>

theorem OpticalSystem_call_sequence:
  "OpticalSystem_call invoke \<lparr>elements = e0 # es\<rparr> args kwargs s
     = foldl (then_stage invoke) (invoke e0 args kwargs s) es
   \<and> OpticalSystem_call invoke \<lparr>elements = [e0]\<rparr> args kwargs s = invoke e0 args kwargs s"
  by (simp add: OpticalSystem_call_def call_loop_foldl)

text \<open>
  C3, as the code has it. Constructing an \<open>OpticalSystem\<close> never fails, whatever the
  sequence; a system with no element raises IndexError when it is invoked, before any
  element is called and with the state as it was.
\<close>

theorem OpticalSystem_empty_fails_at_call:
  "OpticalSystem_init es = Inr \<lparr>elements = es\<rparr>
   \<and> OpticalSystem_call invoke \<lparr>elements = []\<rparr> args kwargs s = (Inl IndexError, s)"
  by (simp add: OpticalSystem_init_def OpticalSystem_call_def py_raise_def)

text \<open>
  C3 as stated fails: the constructor accepts the empty sequence, and the error only
  comes with the invocation.
\<close>

theorem OpticalSystem_init_empty_succeeds:
  "(OpticalSystem_init ([] :: sample_element list) :: string error + sample_element OpticalSystem)
     = Inr \<lparr>elements = []\<rparr>
   \<and> OpticalSystem_call sample_invoke \<lparr>elements = []\<rparr> [] Map.empty 0 = (Inl IndexError, 0)"
  by (simp add: OpticalSystem_init_def OpticalSystem_call_def py_raise_def)

text \<open>
  C7, as the code has it. The composer neither checks nor converts what a stage returns.
  Whatever value \<open>v\<close> the stages before \<open>e\<close> return, field or not, \<open>e\<close> is called with
  \<open>v\<close> as its only argument. An error comes only from a stage that raises: then the
  exception is the outcome of the whole call, with the state as it was when it was
  raised, and no later stage runs. When \<open>e\<close> returns, the call goes on with what it
  returned.
\<close>

theorem OpticalSystem_call_no_coercion:
  assumes "pre \<noteq> []"
  shows "OpticalSystem_call invoke \<lparr>elements = pre @ e # post\<rparr> args kwargs s =
     (case OpticalSystem_call invoke \<lparr>elements = pre\<rparr> args kwargs s of
        (Inl err, s1) \<Rightarrow> (Inl err, s1)
      | (Inr v, s1) \<Rightarrow>
          (case invoke e [v] Map.empty s1 of
             (Inl err, s2) \<Rightarrow> (Inl err, s2)
           | (Inr v', s2) \<Rightarrow> call_loop invoke post v' s2))"
proof -
  from assms obtain e0 es where pre: "pre = e0 # es"
    by (cases pre) auto
  let ?r = "foldl (then_stage invoke) (invoke e0 args kwargs s) es"
  have whole: "OpticalSystem_call invoke \<lparr>elements = pre @ e # post\<rparr> args kwargs s
        = foldl (then_stage invoke) (then_stage invoke ?r e) post"
    by (simp add: pre OpticalSystem_call_Cons)
  have part: "OpticalSystem_call invoke \<lparr>elements = pre\<rparr> args kwargs s = ?r"
    by (simp add: pre OpticalSystem_call_Cons)
  show ?thesis
  proof (cases ?r)
    case (Pair out s1)
    show ?thesis
    proof (cases out)
      case (Inl err)
      with Pair show ?thesis
        by (simp add: whole part then_stage_def foldl_then_stage_Inl)
    next
      case (Inr v)
      show ?thesis
      proof (cases "invoke e [v] Map.empty s1")
        case inner: (Pair out2 s2)
        with Pair Inr show ?thesis
          by (cases out2)
             (simp_all add: whole part then_stage_def foldl_then_stage_Inl foldl_then_stage_Inr)
      qed
    qed
  qed
qed

text \<open>
  At a concrete system: \<open>Intensity\<close> returns a scalar, \<open>Shift 1\<close> is called with it and
  raises, and \<open>Shift 2\<close> never runs.
\<close>

theorem OpticalSystem_call_no_coercion_witness:
  "[Source, Intensity] \<noteq> []
   \<and> OpticalSystem_call sample_invoke \<lparr>elements = [Source, Intensity]\<rparr> [] Map.empty 0
       = (Inr (Scalar 0), 0)
   \<and> OpticalSystem_call sample_invoke \<lparr>elements = [Source, Intensity] @ Shift 1 # [Shift 2]\<rparr>
         [] Map.empty 0
       = (Inl (Raised ''TypeError''), 0)"
proof -
  have pre: "OpticalSystem_call sample_invoke \<lparr>elements = [Source, Intensity]\<rparr> [] Map.empty 0
       = (Inr (Scalar 0), 0)"
    by (simp add: OpticalSystem_call_def py_bind_def py_return_def the_wave_def)
  have "[Source, Intensity] \<noteq> []" by simp
  from OpticalSystem_call_no_coercion [OF this, of sample_invoke "Shift 1" "[Shift 2]" "[]" Map.empty 0]
  show ?thesis
    by (simp add: pre py_raise_def the_wave_def)
qed

text \<open>
  C7 as stated fails: \<open>Intensity\<close>, not the last stage, returns a scalar, which is not a
  field; the next stage accepts it, and the call returns a value and no error.
\<close>

theorem OpticalSystem_call_accepts_non_field:
  "OpticalSystem_call sample_invoke \<lparr>elements = [Source, Intensity]\<rparr> [] Map.empty 0
     = (Inr (Scalar 0), 0)
   \<and> \<not> is_wave (Scalar 0)
   \<and> OpticalSystem_call sample_invoke \<lparr>elements = [Source, Intensity, Source]\<rparr> [] Map.empty 0
     = (Inr (Wave 1), 0)"
  by (simp add: OpticalSystem_call_def py_bind_def py_return_def the_wave_def)

lemma pure_stage_simps:
  "pure_stage f (Inl err) e = Inl err"
  "pure_stage f (Inr v) e = f e [v] Map.empty"
  by (simp_all add: pure_stage_def)

lemma foldl_pure_stage_Inl: "foldl (pure_stage f) (Inl err) es = Inl err"
  by (induction es) (simp_all add: pure_stage_simps)

lemma state_preserving_apply:
  "state_preserving invoke e \<Longrightarrow>
   invoke e args kwargs s = (fst (invoke e args kwargs s), s)"
  by (metis state_preserving_def prod.collapse)

lemma call_loop_state_preserving:
  assumes "\<forall>e \<in> set es. state_preserving invoke e"
  shows "call_loop invoke es v s
         = (foldl (pure_stage (\<lambda>e a k. fst (invoke e a k s))) (Inr v) es, s)"
  using assms
proof (induction es arbitrary: v)
  case Nil
  show ?case by (simp add: py_return_def)
next
  case (Cons e es)
  from Cons.prems have e: "state_preserving invoke e"
    and rest: "\<forall>e \<in> set es. state_preserving invoke e"
    by simp_all
  have step: "invoke e [v] Map.empty s = (fst (invoke e [v] Map.empty s), s)"
    by (rule state_preserving_apply [OF e])
  show ?case
  proof (cases "fst (invoke e [v] Map.empty s)")
    case (Inl err)
    with step have "invoke e [v] Map.empty s = (Inl err, s)" by simp
    with Inl show ?thesis
      by (simp add: py_bind_def pure_stage_simps foldl_pure_stage_Inl)
  next
    case (Inr v')
    with step have "invoke e [v] Map.empty s = (Inr v', s)" by simp
    with Inr Cons.IH [OF rest, of v'] show ?thesis
      by (simp add: py_bind_def pure_stage_simps)
  qed
qed

text \<open>
  C8, as the code has it. The composer keeps no state of its own and adds nothing to what
  its elements compute. When every element leaves the state as it was, so does the call,
  and its outcome is the hand-over of the elements' outcomes at that state: IndexError
  for no element, else \<open>e0(*args, **kwargs)\<close> passed on through the other elements. A
  second invocation with the same arguments, run after the first, then returns what the
  first returned.
\<close>

theorem OpticalSystem_call_deterministic:
  assumes "\<forall>e \<in> set (elements self). state_preserving invoke e"
  shows "OpticalSystem_call invoke self args kwargs s =
           ((case elements self of
               [] \<Rightarrow> Inl IndexError
             | e0 # es \<Rightarrow>
                 foldl (pure_stage (\<lambda>e a k. fst (invoke e a k s)))
                   (fst (invoke e0 args kwargs s)) es),
            s)
         \<and> OpticalSystem_call invoke self args kwargs
             (snd (OpticalSystem_call invoke self args kwargs s))
             = OpticalSystem_call invoke self args kwargs s"
proof -
  have first: "OpticalSystem_call invoke self args kwargs s =
           ((case elements self of
               [] \<Rightarrow> Inl IndexError
             | e0 # es \<Rightarrow>
                 foldl (pure_stage (\<lambda>e a k. fst (invoke e a k s)))
                   (fst (invoke e0 args kwargs s)) es),
            s)"
  proof (cases "elements self")
    case Nil
    then show ?thesis by (simp add: OpticalSystem_call_def py_raise_def)
  next
    case (Cons e0 es)
    from assms Cons have e0: "state_preserving invoke e0"
      and rest: "\<forall>e \<in> set es. state_preserving invoke e"
      by simp_all
    have step: "invoke e0 args kwargs s = (fst (invoke e0 args kwargs s), s)"
      by (rule state_preserving_apply [OF e0])
    show ?thesis
    proof (cases "fst (invoke e0 args kwargs s)")
      case (Inl err)
      with step have "invoke e0 args kwargs s = (Inl err, s)" by simp
      with Inl Cons show ?thesis
        by (simp add: OpticalSystem_call_def py_bind_def foldl_pure_stage_Inl)
    next
      case (Inr v)
      with step have "invoke e0 args kwargs s = (Inr v, s)" by simp
      with Inr Cons call_loop_state_preserving [OF rest, of v s] show ?thesis
        by (simp add: OpticalSystem_call_def py_bind_def)
    qed
  qed
  then have "snd (OpticalSystem_call invoke self args kwargs s) = s"
    by simp
  with first show ?thesis by simp
qed

text \<open>
  At a concrete system whose first element reads the state: from state 3 the call returns
  the scalar 4 and leaves the state, and so does a second invocation after it.
\<close>

theorem OpticalSystem_call_deterministic_witness:
  "state_preserving sample_invoke Seeded \<and> state_preserving sample_invoke (Shift 1)
   \<and> state_preserving sample_invoke Intensity
   \<and> OpticalSystem_call sample_invoke \<lparr>elements = [Seeded, Shift 1, Intensity]\<rparr> [] Map.empty 3
       = (Inr (Scalar 4), 3)
   \<and> OpticalSystem_call sample_invoke \<lparr>elements = [Seeded, Shift 1, Intensity]\<rparr> [] Map.empty
         (snd (OpticalSystem_call sample_invoke \<lparr>elements = [Seeded, Shift 1, Intensity]\<rparr>
                 [] Map.empty 3))
       = (Inr (Scalar 4), 3)"
proof -
  have each: "state_preserving sample_invoke Seeded" "state_preserving sample_invoke (Shift 1)"
    "state_preserving sample_invoke Intensity"
    by (simp_all add: state_preserving_def py_return_def py_raise_def split: option.splits)
  then have all: "\<forall>e \<in> set (elements \<lparr>elements = [Seeded, Shift 1, Intensity]\<rparr>).
      state_preserving sample_invoke e"
    by simp
  note inst = OpticalSystem_call_deterministic [OF all, of "[]" Map.empty 3]
  from inst have run: "OpticalSystem_call sample_invoke
      \<lparr>elements = [Seeded, Shift 1, Intensity]\<rparr> [] Map.empty 3 = (Inr (Scalar 4), 3)"
    by (simp add: pure_stage_simps py_return_def the_wave_def)
  from inst have "OpticalSystem_call sample_invoke \<lparr>elements = [Seeded, Shift 1, Intensity]\<rparr>
      [] Map.empty
      (snd (OpticalSystem_call sample_invoke \<lparr>elements = [Seeded, Shift 1, Intensity]\<rparr>
              [] Map.empty 3))
      = OpticalSystem_call sample_invoke \<lparr>elements = [Seeded, Shift 1, Intensity]\<rparr>
          [] Map.empty 3"
    by (rule conjunct2)
  with run each show ?thesis by simp
qed

text \<open>
  C8 as stated fails: the class accepts any callable, and one that keeps state of its own
  makes two invocations with the same arguments differ. The second invocation, run in
  the state the first left, returns another wave.
\<close>

theorem OpticalSystem_call_counter_differs:
  "OpticalSystem_call sample_invoke \<lparr>elements = [Counter]\<rparr> [] Map.empty 0
     = (Inr (Wave 0), 1)
   \<and> OpticalSystem_call sample_invoke \<lparr>elements = [Counter]\<rparr> [] Map.empty
       (snd (OpticalSystem_call sample_invoke \<lparr>elements = [Counter]\<rparr> [] Map.empty 0))
     = (Inr (Wave 1), 2)"
  by (simp add: OpticalSystem_call_def py_bind_def py_return_def)

lemma observed_apply:
  "invoke e args kwargs s = (r, s') \<Longrightarrow>
   observed invoke e args kwargs (s, trace)
     = (r, (s', trace @ [\<lparr>callee = e, positional_args = args, keyword_args = kwargs,
                          outcome = r\<rparr>]))"
  by (simp add: observed_def)

lemma call_loop_observed:
  assumes "call_loop (observed invoke) es v (s, trace) = (r, (s', trace'))"
  shows "\<exists>new. trace' = trace @ new \<and> handed_on v es new
           \<and> r = (if new = [] then Inr v else outcome (last new))"
  using assms
proof (induction es arbitrary: v s trace)
  case Nil
  then show ?case by (auto simp: py_return_def)
next
  case (Cons e es)
  obtain out s1 where step: "invoke e [v] Map.empty s = (out, s1)"
    by (cases "invoke e [v] Map.empty s") auto
  let ?c = "\<lparr>callee = e, positional_args = [v], keyword_args = Map.empty, outcome = out\<rparr>"
  show ?case
  proof (cases out)
    case (Inl err)
    with Cons.prems step have "trace' = trace @ [?c] \<and> r = out"
      by (auto simp: py_bind_def observed_apply)
    with Inl have "trace' = trace @ [?c] \<and> handed_on v (e # es) [?c]
        \<and> r = (if [?c] = [] then Inr v else outcome (last [?c]))"
      by simp
    then show ?thesis by blast
  next
    case (Inr v')
    with Cons.prems step
    have "call_loop (observed invoke) es v' (s1, trace @ [?c]) = (r, (s', trace'))"
      by (simp add: py_bind_def observed_apply)
    from Cons.IH [OF this] obtain new where
      new: "trace' = (trace @ [?c]) @ new" "handed_on v' es new"
        "r = (if new = [] then Inr v' else outcome (last new))"
      by blast
    with Inr have "trace' = trace @ (?c # new) \<and> handed_on v (e # es) (?c # new)
        \<and> r = (if ?c # new = [] then Inr v else outcome (last (?c # new)))"
      by simp
    then show ?thesis by blast
  qed
qed

text \<open>Recording the invocations changes neither the outcome nor the state.\<close>

lemma call_loop_observed_same:
  "call_loop (observed invoke) es v (s, trace) = (r, (s', trace'))
   \<Longrightarrow> call_loop invoke es v s = (r, s')"
proof (induction es arbitrary: v s trace)
  case Nil
  then show ?case by (auto simp: py_return_def)
next
  case (Cons e es)
  obtain out s1 where step: "invoke e [v] Map.empty s = (out, s1)"
    by (cases "invoke e [v] Map.empty s") auto
  show ?case
  proof (cases out)
    case (Inl err)
    with Cons.prems step show ?thesis
      by (auto simp: py_bind_def observed_apply)
  next
    case (Inr v')
    with Cons.prems step Cons.IH show ?thesis
      by (auto simp: py_bind_def observed_apply)
  qed
qed

lemma OpticalSystem_call_observed_same:
  assumes "OpticalSystem_call (observed invoke) self args kwargs (s, trace) = (r, (s', trace'))"
  shows "OpticalSystem_call invoke self args kwargs s = (r, s')"
proof (cases "elements self")
  case Nil
  with assms show ?thesis
    by (auto simp: OpticalSystem_call_def py_raise_def)
next
  case (Cons e0 es)
  obtain out s1 where step: "invoke e0 args kwargs s = (out, s1)"
    by (cases "invoke e0 args kwargs s") auto
  show ?thesis
  proof (cases out)
    case (Inl err)
    with assms Cons step show ?thesis
      by (auto simp: OpticalSystem_call_def py_bind_def observed_apply)
  next
    case (Inr v)
    with assms Cons step
    have "call_loop (observed invoke) es v
        (s1, trace @ [\<lparr>callee = e0, positional_args = args, keyword_args = kwargs,
                        outcome = Inr v\<rparr>]) = (r, (s', trace'))"
      by (simp add: OpticalSystem_call_def py_bind_def observed_apply)
    from call_loop_observed_same [OF this] Inr Cons step show ?thesis
      by (simp add: OpticalSystem_call_def py_bind_def)
  qed
qed

text \<open>
  C9. Of a non-empty system, the first invocation is that of the first element, with the
  positional and the keyword arguments of the call. After it every further element of
  the sequence is invoked, once and in order, unless an invocation before it raised:
  each with exactly one positional argument, the value the invocation before it
  returned, and with no keyword argument. The call returns the outcome of the last
  invocation.
\<close>

theorem OpticalSystem_call_arguments:
  assumes "elements self \<noteq> []"
  shows "\<exists>first rest.
     snd (snd (OpticalSystem_call (observed invoke) self args kwargs (s, []))) = first # rest
     \<and> callee first = elements self ! 0 \<and> positional_args first = args
     \<and> keyword_args first = kwargs
     \<and> (case outcome first of
          Inr v \<Rightarrow> handed_on v (drop 1 (elements self)) rest
        | Inl err \<Rightarrow> rest = [])
     \<and> fst (OpticalSystem_call (observed invoke) self args kwargs (s, []))
         = outcome (last (first # rest))"
proof -
  from assms obtain e0 es where es: "elements self = e0 # es"
    by (cases "elements self") auto
  obtain out s1 where step: "invoke e0 args kwargs s = (out, s1)"
    by (cases "invoke e0 args kwargs s") auto
  let ?c = "\<lparr>callee = e0, positional_args = args, keyword_args = kwargs, outcome = out\<rparr>"
  show ?thesis
  proof (cases out)
    case (Inl err)
    with es step
    have "OpticalSystem_call (observed invoke) self args kwargs (s, []) = (out, (s1, [?c]))"
      by (simp add: OpticalSystem_call_def py_bind_def observed_apply)
    with Inl es show ?thesis by simp
  next
    case (Inr v)
    obtain r s' trace' where
      run: "call_loop (observed invoke) es v (s1, [?c]) = (r, (s', trace'))"
      by (metis prod.collapse)
    from call_loop_observed [OF run] obtain new where
      new: "trace' = [?c] @ new" "handed_on v es new"
        "r = (if new = [] then Inr v else outcome (last new))"
      by blast
    from es step Inr run
    have "OpticalSystem_call (observed invoke) self args kwargs (s, []) = (r, (s', trace'))"
      by (simp add: OpticalSystem_call_def py_bind_def observed_apply)
    with new Inr es show ?thesis by simp
  qed
qed

text \<open>
  At a concrete system of five elements, called with one positional and one keyword
  argument: the trace is the five invocations below.
\<close>

theorem OpticalSystem_call_arguments_witness:
  "elements \<lparr>elements = [Source, Shift 1, Shift 2, Shift 3, Intensity]\<rparr> \<noteq> []
   \<and> OpticalSystem_call (observed sample_invoke)
        \<lparr>elements = [Source, Shift 1, Shift 2, Shift 3, Intensity]\<rparr>
        [Scalar 5] [''z'' \<mapsto> Scalar 3] (0, [])
     = (Inr (Scalar 7), (0,
        [\<lparr>callee = Source, positional_args = [Scalar 5], keyword_args = [''z'' \<mapsto> Scalar 3],
           outcome = Inr (Wave 1)\<rparr>,
         \<lparr>callee = Shift 1, positional_args = [Wave 1], keyword_args = Map.empty,
           outcome = Inr (Wave 2)\<rparr>,
         \<lparr>callee = Shift 2, positional_args = [Wave 2], keyword_args = Map.empty,
           outcome = Inr (Wave 4)\<rparr>,
         \<lparr>callee = Shift 3, positional_args = [Wave 4], keyword_args = Map.empty,
           outcome = Inr (Wave 7)\<rparr>,
         \<lparr>callee = Intensity, positional_args = [Wave 7], keyword_args = Map.empty,
           outcome = Inr (Scalar 7)\<rparr>]))
   \<and> (\<exists>first rest.
        snd (snd (OpticalSystem_call (observed sample_invoke)
          \<lparr>elements = [Source, Shift 1, Shift 2, Shift 3, Intensity]\<rparr>
          [Scalar 5] [''z'' \<mapsto> Scalar 3] (0, []))) = first # rest
        \<and> callee first = elements \<lparr>elements = [Source, Shift 1, Shift 2, Shift 3, Intensity]\<rparr> ! 0
        \<and> positional_args first = [Scalar 5]
        \<and> keyword_args first = [''z'' \<mapsto> Scalar 3]
        \<and> (case outcome first of
             Inr v \<Rightarrow>
               handed_on v
                 (drop 1 (elements \<lparr>elements = [Source, Shift 1, Shift 2, Shift 3, Intensity]\<rparr>))
                 rest
           | Inl err \<Rightarrow> rest = [])
        \<and> fst (OpticalSystem_call (observed sample_invoke)
              \<lparr>elements = [Source, Shift 1, Shift 2, Shift 3, Intensity]\<rparr>
              [Scalar 5] [''z'' \<mapsto> Scalar 3] (0, []))
            = outcome (last (first # rest)))"
proof -
  have ne: "elements \<lparr>elements = [Source, Shift 1, Shift 2, Shift 3, Intensity]\<rparr> \<noteq> []"
    by simp
  have run: "OpticalSystem_call (observed sample_invoke)
        \<lparr>elements = [Source, Shift 1, Shift 2, Shift 3, Intensity]\<rparr>
        [Scalar 5] [''z'' \<mapsto> Scalar 3] (0, [])
     = (Inr (Scalar 7), (0,
        [\<lparr>callee = Source, positional_args = [Scalar 5], keyword_args = [''z'' \<mapsto> Scalar 3],
           outcome = Inr (Wave 1)\<rparr>,
         \<lparr>callee = Shift 1, positional_args = [Wave 1], keyword_args = Map.empty,
           outcome = Inr (Wave 2)\<rparr>,
         \<lparr>callee = Shift 2, positional_args = [Wave 2], keyword_args = Map.empty,
           outcome = Inr (Wave 4)\<rparr>,
         \<lparr>callee = Shift 3, positional_args = [Wave 4], keyword_args = Map.empty,
           outcome = Inr (Wave 7)\<rparr>,
         \<lparr>callee = Intensity, positional_args = [Wave 7], keyword_args = Map.empty,
           outcome = Inr (Scalar 7)\<rparr>]))"
    by (simp add: OpticalSystem_call_def py_bind_def py_return_def observed_def the_wave_def)
  from OpticalSystem_call_arguments
    [OF ne, of sample_invoke "[Scalar 5]" "[''z'' \<mapsto> Scalar 3]" 0]
  have "\<exists>first rest.
        snd (snd (OpticalSystem_call (observed sample_invoke)
          \<lparr>elements = [Source, Shift 1, Shift 2, Shift 3, Intensity]\<rparr>
          [Scalar 5] [''z'' \<mapsto> Scalar 3] (0, []))) = first # rest
        \<and> callee first = elements \<lparr>elements = [Source, Shift 1, Shift 2, Shift 3, Intensity]\<rparr> ! 0
        \<and> positional_args first = [Scalar 5]
        \<and> keyword_args first = [''z'' \<mapsto> Scalar 3]
        \<and> (case outcome first of
             Inr v \<Rightarrow>
               handed_on v
                 (drop 1 (elements \<lparr>elements = [Source, Shift 1, Shift 2, Shift 3, Intensity]\<rparr>))
                 rest
           | Inl err \<Rightarrow> rest = [])
        \<and> fst (OpticalSystem_call (observed sample_invoke)
              \<lparr>elements = [Source, Shift 1, Shift 2, Shift 3, Intensity]\<rparr>
              [Scalar 5] [''z'' \<mapsto> Scalar 3] (0, []))
            = outcome (last (first # rest))" .
  with ne run show ?thesis
    by (intro conjI) assumption+
qed

section \<open>The factory\<close>


text \<open>The parameters left out take the defaults of the signature.\<close>

lemma system_prop_lens_prop_defaults:
  "system_prop_lens_prop shape dx spectrum None None None None None None None None
   = Inr \<lparr>elements =
       [GaussianPlaneWave_element
          (GaussianPlaneWave_init shape dx spectrum (Concrete (VFloat 1))
             (Concrete (VFloat float_1e_3))),
        Propagate_element \<lparr>prop_z = Concrete (VFloat float_1e_3), prop_n = Concrete (VFloat 1)\<rparr>,
        ThinLens_element \<lparr>lens_f = Concrete (VFloat float_1e_3), lens_n = Concrete (VFloat 1),
          lens_NA = Concrete VNone\<rparr>,
        Propagate_element \<lparr>prop_z = Concrete (VFloat float_1e_3), prop_n = Concrete (VFloat 1)\<rparr>]\<rparr>"
  by (simp add: system_prop_lens_prop_def default_arg_def OpticalSystem_init_def
      GaussianPlaneWave_init_def Let_def)

text \<open>The system of the example script.\<close>

lemma optical_system_elements:
  "optical_system
   = Inr \<lparr>elements =
       [GaussianPlaneWave_element
          (GaussianPlaneWave_init (Concrete (VTuple [VInt 256, VInt 256]))
             (Concrete (VFloat float_1e_6)) (Concrete (VFloat float_632_8e_9))
             (Concrete (VFloat 1)) (Concrete (VFloat float_50e_6))),
        Propagate_element \<lparr>prop_z = Concrete (VFloat float_1e_3), prop_n = Concrete (VFloat 1)\<rparr>,
        ThinLens_element \<lparr>lens_f = Concrete (VFloat float_5e_3), lens_n = Concrete (VFloat 1),
          lens_NA = Concrete (VFloat (1 / 2))\<rparr>,
        Propagate_element \<lparr>prop_z = Concrete (VFloat float_1e_3), prop_n = Concrete (VFloat 1)\<rparr>]\<rparr>"
  by (simp add: optical_system_def system_prop_lens_prop_def default_arg_def
      OpticalSystem_init_def GaussianPlaneWave_init_def Let_def)

section \<open>The source elements\<close>

text \<open>
  What each \<open>__call__\<close> hands to its numerical function when registration is the
  collaborator of the specification: the registered attributes arrive resolved, the
  others as they were configured.
\<close>

lemma resolve_Concrete: "resolve ctx (Concrete v) = v"
  by (simp add: resolve_def)

lemma spec_register_preserves: "snd (spec_register getattr self name ctx) = ctx"
  by (simp add: spec_register_def split: option.splits)

lemma PointSource_call_resolved:
  "PointSource_call (spec_register PointSource_getattr) point_source self ctx =
     point_source (ps_shape self) (ps_dx self) (ps_spectrum self) (ps_spectral_density self)
       (Concrete (resolve ctx (ps_z self))) (Concrete (resolve ctx (ps_n self)))
       (Concrete (resolve ctx (ps_power self))) (Concrete (resolve ctx (ps_amplitude self)))
       (ps_pupil self) (ps_scalar self) (ps_epsilon self) ctx"
  by (simp add: PointSource_call_def py_bind_def spec_register_def PointSource_getattr_def)

lemma ObjectivePointSource_call_resolved:
  "ObjectivePointSource_call (spec_register ObjectivePointSource_getattr)
       objective_point_source self z ctx =
     objective_point_source (ops_shape self) (ops_dx self) (ops_spectrum self)
       (ops_spectral_density self) z
       (Concrete (resolve ctx (ops_f self))) (Concrete (resolve ctx (ops_n self)))
       (Concrete (resolve ctx (ops_NA self))) (Concrete (resolve ctx (ops_power self)))
       (Concrete (resolve ctx (ops_amplitude self))) (Concrete (resolve ctx (ops_offset self)))
       (ops_scalar self) ctx"
  by (simp add: ObjectivePointSource_call_def py_bind_def spec_register_def
      ObjectivePointSource_getattr_def)

lemma PlaneWave_call_resolved:
  "PlaneWave_call (spec_register PlaneWave_getattr) plane_wave self ctx =
     plane_wave (pw_shape self) (pw_dx self) (pw_spectrum self) (pw_spectral_density self)
       (Concrete (resolve ctx (pw_power self))) (Concrete (resolve ctx (pw_amplitude self)))
       (Concrete (resolve ctx (pw_kykx self))) (pw_pupil self) (pw_scalar self) ctx"
  by (simp add: PlaneWave_call_def py_bind_def spec_register_def PlaneWave_getattr_def)

lemma GenericField_call_resolved:
  "GenericField_call (spec_register GenericField_getattr) generic_field self ctx =
     generic_field (gf_dx self) (gf_spectrum self) (gf_spectral_density self)
       (Concrete (resolve ctx (gf_amplitude self))) (Concrete (resolve ctx (gf_phase self)))
       (Concrete (resolve ctx (gf_power self))) (gf_pupil self) (gf_scalar self) ctx"
  by (simp add: GenericField_call_def py_bind_def spec_register_def GenericField_getattr_def)

lemma GaussianPlaneWave_call_resolved:
  "GaussianPlaneWave_call (spec_register GaussianPlaneWave_getattr) gaussian_plane_wave self ctx =
     gaussian_plane_wave (gpw_shape self) (gpw_dx self) (gpw_spectrum self)
       (gpw_spectral_density self) (gpw_waist self)
       (Concrete (resolve ctx (gpw_power self))) (Concrete (resolve ctx (gpw_amplitude self)))
       (Concrete (resolve ctx (gpw_kykx self))) (gpw_pupil self) (gpw_scalar self) ctx"
  by (simp add: GaussianPlaneWave_call_def py_bind_def spec_register_def
      GaussianPlaneWave_getattr_def)

text \<open>
  C5. \<open>ObjectivePointSource\<close> has no attribute \<open>z\<close>: the defocus distance is the
  argument of each call. A call passes that \<open>z\<close> in fifth place to
  \<open>objective_point_source\<close>, together with the registered \<open>f\<close>, \<open>n\<close>, \<open>NA\<close>, \<open>power\<close>,
  \<open>amplitude\<close> and \<open>offset\<close> of the element, which for concrete attributes are the
  configured values; the same element serves every \<open>z\<close>.
\<close>

theorem ObjectivePointSource_z_per_call:
  "ObjectivePointSource_getattr self ''z'' = None
   \<and> ObjectivePointSource_call (spec_register ObjectivePointSource_getattr)
       objective_point_source self z ctx =
     objective_point_source (ops_shape self) (ops_dx self) (ops_spectrum self)
       (ops_spectral_density self) z
       (Concrete (resolve ctx (ops_f self))) (Concrete (resolve ctx (ops_n self)))
       (Concrete (resolve ctx (ops_NA self))) (Concrete (resolve ctx (ops_power self)))
       (Concrete (resolve ctx (ops_amplitude self))) (Concrete (resolve ctx (ops_offset self)))
       (ops_scalar self) ctx
   \<and> ObjectivePointSource_call (spec_register ObjectivePointSource_getattr)
       objective_point_source
       ((ObjectivePointSource_init shape dx spectrum spectral_density
           (Concrete f) (Concrete n) (Concrete NA))
          \<lparr>ops_power := Concrete power', ops_amplitude := Concrete amplitude,
            ops_offset := Concrete offset\<rparr>) z ctx =
     objective_point_source shape dx spectrum spectral_density z
       (Concrete f) (Concrete n) (Concrete NA) (Concrete power') (Concrete amplitude)
       (Concrete offset) (Concrete (VBool True)) ctx"
proof (intro conjI)
  show "ObjectivePointSource_getattr self ''z'' = None"
    by (simp add: ObjectivePointSource_getattr_def)
qed (simp_all add: ObjectivePointSource_call_resolved ObjectivePointSource_init_def
       resolve_Concrete)

text \<open>
  C6, as the code has it. Each source element passes through registration exactly the
  attributes its \<open>__call__\<close> registers: \<open>power\<close>, \<open>z\<close>, \<open>n\<close>, \<open>amplitude\<close> for
  \<open>PointSource\<close>; \<open>f\<close>, \<open>n\<close>, \<open>NA\<close>, \<open>power\<close>, \<open>amplitude\<close>, \<open>offset\<close> for
  \<open>ObjectivePointSource\<close>; \<open>kykx\<close>, \<open>power\<close>, \<open>amplitude\<close> for \<open>PlaneWave\<close> and
  \<open>GaussianPlaneWave\<close>; \<open>amplitude\<close>, \<open>phase\<close>, \<open>power\<close> for \<open>GenericField\<close>. These reach
  the numerical function as concrete values, whether they were supplied as a value or as
  a generator. Every other attribute (\<open>shape\<close>, \<open>dx\<close>, \<open>spectrum\<close>,
  \<open>spectral_density\<close>, \<open>waist\<close>, \<open>pupil\<close>, \<open>scalar\<close>, \<open>epsilon\<close>) is passed as configured.
\<close>

theorem sources_resolve_registered_attributes:
  "PointSource_call (spec_register PointSource_getattr) point_source s1 ctx =
     point_source (ps_shape s1) (ps_dx s1) (ps_spectrum s1) (ps_spectral_density s1)
       (Concrete (resolve ctx (ps_z s1))) (Concrete (resolve ctx (ps_n s1)))
       (Concrete (resolve ctx (ps_power s1))) (Concrete (resolve ctx (ps_amplitude s1)))
       (ps_pupil s1) (ps_scalar s1) (ps_epsilon s1) ctx
   \<and> ObjectivePointSource_call (spec_register ObjectivePointSource_getattr)
       objective_point_source s2 z ctx =
     objective_point_source (ops_shape s2) (ops_dx s2) (ops_spectrum s2)
       (ops_spectral_density s2) z
       (Concrete (resolve ctx (ops_f s2))) (Concrete (resolve ctx (ops_n s2)))
       (Concrete (resolve ctx (ops_NA s2))) (Concrete (resolve ctx (ops_power s2)))
       (Concrete (resolve ctx (ops_amplitude s2))) (Concrete (resolve ctx (ops_offset s2)))
       (ops_scalar s2) ctx
   \<and> PlaneWave_call (spec_register PlaneWave_getattr) plane_wave s3 ctx =
     plane_wave (pw_shape s3) (pw_dx s3) (pw_spectrum s3) (pw_spectral_density s3)
       (Concrete (resolve ctx (pw_power s3))) (Concrete (resolve ctx (pw_amplitude s3)))
       (Concrete (resolve ctx (pw_kykx s3))) (pw_pupil s3) (pw_scalar s3) ctx
   \<and> GenericField_call (spec_register GenericField_getattr) generic_field s4 ctx =
     generic_field (gf_dx s4) (gf_spectrum s4) (gf_spectral_density s4)
       (Concrete (resolve ctx (gf_amplitude s4))) (Concrete (resolve ctx (gf_phase s4)))
       (Concrete (resolve ctx (gf_power s4))) (gf_pupil s4) (gf_scalar s4) ctx
   \<and> GaussianPlaneWave_call (spec_register GaussianPlaneWave_getattr) gaussian_plane_wave s5 ctx =
     gaussian_plane_wave (gpw_shape s5) (gpw_dx s5) (gpw_spectrum s5)
       (gpw_spectral_density s5) (gpw_waist s5)
       (Concrete (resolve ctx (gpw_power s5))) (Concrete (resolve ctx (gpw_amplitude s5)))
       (Concrete (resolve ctx (gpw_kykx s5))) (gpw_pupil s5) (gpw_scalar s5) ctx"
  by (intro conjI)
     (rule PointSource_call_resolved ObjectivePointSource_call_resolved
        PlaneWave_call_resolved GenericField_call_resolved GaussianPlaneWave_call_resolved)+

text \<open>
  C6 as stated fails: \<open>waist\<close> is a scalar attribute of \<open>GaussianPlaneWave\<close> that is not
  registered. Supplied as a generator, it reaches \<open>gaussian_plane_wave\<close> (fifth
  argument) still a generator, while \<open>power\<close> (sixth), supplied as the same generator,
  arrives resolved.
\<close>

theorem GaussianPlaneWave_waist_not_resolved:
  "(GaussianPlaneWave_call (spec_register GaussianPlaneWave_getattr) received10
      sample_gaussian (0, 7) :: (string error + unit attr list) \<times> PRNGKey)
   = (Inr [Concrete (VTuple [VInt 4, VInt 4]), Concrete (VFloat 1), Concrete (VFloat 2),
           Concrete (VFloat 1), Generator sample_generator, Concrete (VInt 7),
           Concrete (VFloat 1), Concrete (VTuple [VFloat 0, VFloat 0]), Concrete VNone,
           Concrete (VBool True)],
      (0, 7))"
  by (simp add: GaussianPlaneWave_call_resolved received10_def py_return_def resolve_def
      sample_gaussian_def GaussianPlaneWave_init_def sample_generator_def)

lemma PointSource_call_register_cong:
  assumes "\<And>name. name \<noteq> ''epsilon'' \<Longrightarrow> r1 self name = r2 self name"
  shows "PointSource_call r1 point_source self = PointSource_call r2 point_source self"
  by (simp add: PointSource_call_def assms)

text \<open>
  C10. \<open>epsilon\<close> is an attribute of \<open>PointSource\<close> whose default is the float32
  machine epsilon. A call passes the attribute, as it is, in last place to
  \<open>point_source\<close>. It never goes through registration: the call is the same under any
  two registrations that agree on every name but \<open>epsilon\<close>.
\<close>

theorem PointSource_epsilon_passed_unchanged:
  "ps_epsilon (PointSource_init shape dx spectrum spectral_density z n)
     = Concrete (VFloat float32_eps)
   \<and> PointSource_getattr self ''epsilon'' = Some (ps_epsilon self)
   \<and> PointSource_call (spec_register PointSource_getattr) point_source self ctx =
       point_source (ps_shape self) (ps_dx self) (ps_spectrum self) (ps_spectral_density self)
         (Concrete (resolve ctx (ps_z self))) (Concrete (resolve ctx (ps_n self)))
         (Concrete (resolve ctx (ps_power self))) (Concrete (resolve ctx (ps_amplitude self)))
         (ps_pupil self) (ps_scalar self) (ps_epsilon self) ctx
   \<and> ((\<forall>name. name \<noteq> ''epsilon'' \<longrightarrow> r1 self name = r2 self name) \<longrightarrow>
        PointSource_call r1 any_point_source self = PointSource_call r2 any_point_source self)"
proof (intro conjI impI)
  show "ps_epsilon (PointSource_init shape dx spectrum spectral_density z n)
     = Concrete (VFloat float32_eps)"
    by (simp add: PointSource_init_def)
  show "PointSource_getattr self ''epsilon'' = Some (ps_epsilon self)"
    by (simp add: PointSource_getattr_def)
  show "PointSource_call (spec_register PointSource_getattr) point_source self ctx =
       point_source (ps_shape self) (ps_dx self) (ps_spectrum self) (ps_spectral_density self)
         (Concrete (resolve ctx (ps_z self))) (Concrete (resolve ctx (ps_n self)))
         (Concrete (resolve ctx (ps_power self))) (Concrete (resolve ctx (ps_amplitude self)))
         (ps_pupil self) (ps_scalar self) (ps_epsilon self) ctx"
    by (rule PointSource_call_resolved)
  assume "\<forall>name. name \<noteq> ''epsilon'' \<longrightarrow> r1 self name = r2 self name"
  then show "PointSource_call r1 any_point_source self = PointSource_call r2 any_point_source self"
    by (intro PointSource_call_register_cong) simp
qed

text \<open>
  At a concrete point source with the default \<open>epsilon\<close>: \<open>point_source\<close> receives
  \<open>2\<^sup>-\<^sup>2\<^sup>3\<close> in last place, and the call is the same when registration refuses the name
  \<open>epsilon\<close>.
\<close>

theorem PointSource_epsilon_passed_unchanged_witness:
  "ps_epsilon sample_point = Concrete (VFloat (1 / 2 ^ 23))
   \<and> (PointSource_call (spec_register PointSource_getattr) received11 sample_point (0, 7)
        :: (string error + unit attr list) \<times> PRNGKey)
     = (Inr [Concrete (VTuple [VInt 4, VInt 4]), Concrete (VFloat 1), Concrete (VFloat 2),
             Concrete (VFloat 1), Concrete (VInt 7), Concrete (VFloat 1), Concrete (VFloat 1),
             Concrete (VFloat 1), Concrete VNone, Concrete (VBool True),
             Concrete (VFloat (1 / 2 ^ 23))],
        (0, 7))
   \<and> (refusing ''epsilon'' (spec_register PointSource_getattr) sample_point ''epsilon'' (0, 7)
        :: (string error + unit attr) \<times> PRNGKey)
     = (Inl (AttributeError ''epsilon''), (0, 7))
   \<and> (PointSource_call (refusing ''epsilon'' (spec_register PointSource_getattr)) received11
        sample_point :: (PRNGKey, string, unit attr list) py)
     = PointSource_call (spec_register PointSource_getattr) received11 sample_point"
proof -
  note inst = PointSource_epsilon_passed_unchanged
    [where self = sample_point and ctx = "(0, 7)"
       and ?r1.0 = "refusing ''epsilon'' (spec_register PointSource_getattr)"
       and ?r2.0 = "spec_register PointSource_getattr"
       and point_source = "received11 :: unit attr \<Rightarrow> _"
       and any_point_source = "received11 :: unit attr \<Rightarrow> _"
       and shape = "Concrete (VTuple [VInt 4, VInt 4])" and dx = "Concrete (VFloat 1)"
       and spectrum = "Concrete (VFloat 2)" and spectral_density = "Concrete (VFloat 1)"
       and z = "Generator sample_generator" and n = "Concrete (VFloat 1)"]
  have agree: "\<forall>name. name \<noteq> ''epsilon'' \<longrightarrow>
      refusing ''epsilon'' (spec_register PointSource_getattr) sample_point name
        = (spec_register PointSource_getattr sample_point name :: (PRNGKey, string, unit attr) py)"
    by (simp add: refusing_def)
  have refuse: "(refusing ''epsilon'' (spec_register PointSource_getattr) sample_point
        ''epsilon'' (0, 7) :: (string error + unit attr) \<times> PRNGKey)
     = (Inl (AttributeError ''epsilon''), (0, 7))"
    by (simp add: refusing_def py_raise_def)
  from inst have eps: "ps_epsilon (PointSource_init (Concrete (VTuple [VInt 4, VInt 4]))
        (Concrete (VFloat 1)) (Concrete (VFloat 2)) (Concrete (VFloat 1))
        (Generator sample_generator) (Concrete (VFloat 1)) :: unit PointSource)
      = Concrete (VFloat float32_eps)"
    by (rule conjunct1)
  from inst have run: "PointSource_call (spec_register PointSource_getattr) received11
        sample_point (0, 7)
      = (received11 (ps_shape sample_point) (ps_dx sample_point) (ps_spectrum sample_point)
           (ps_spectral_density sample_point)
           (Concrete (resolve (0, 7) (ps_z sample_point)))
           (Concrete (resolve (0, 7) (ps_n sample_point)))
           (Concrete (resolve (0, 7) (ps_power sample_point)))
           (Concrete (resolve (0, 7) (ps_amplitude sample_point)))
           (ps_pupil sample_point) (ps_scalar sample_point) (ps_epsilon sample_point) (0, 7)
          :: (string error + unit attr list) \<times> PRNGKey)"
    by blast
  from inst agree
  have same: "(PointSource_call (refusing ''epsilon'' (spec_register PointSource_getattr))
        received11 sample_point :: (PRNGKey, string, unit attr list) py)
     = PointSource_call (spec_register PointSource_getattr) received11 sample_point"
    by blast
  have "ps_epsilon sample_point = Concrete (VFloat (1 / 2 ^ 23))"
    using eps by (simp add: sample_point_def float32_eps_def)
  moreover have "(PointSource_call (spec_register PointSource_getattr) received11
        sample_point (0, 7) :: (string error + unit attr list) \<times> PRNGKey)
     = (Inr [Concrete (VTuple [VInt 4, VInt 4]), Concrete (VFloat 1), Concrete (VFloat 2),
             Concrete (VFloat 1), Concrete (VInt 7), Concrete (VFloat 1), Concrete (VFloat 1),
             Concrete (VFloat 1), Concrete VNone, Concrete (VBool True),
             Concrete (VFloat (1 / 2 ^ 23))],
        (0, 7))"
    unfolding run
    by (simp add: sample_point_def PointSource_init_def float32_eps_def received11_def
        py_return_def resolve_def sample_generator_def)
  ultimately show ?thesis
    using refuse same by blast
qed

end
